theory Spec2Isabelle
  imports Main "HOL-Library.Word"
begin

unbundle bit_operations_syntax

section \<open>The Win32 emulation of dlopen, dlsym, dlclose and dlerror\<close>

text \<open>
  A shallow embedding of \<^verbatim>\<open>src/win32-dlfcn.cc\<close>. The file keeps one global, the
  static \<^verbatim>\<open>lastError\<close>, and talks to three parts of its environment: the C
  runtime's \<^verbatim>\<open>errno\<close>, the calling thread's Win32 last-error code
  (\<^verbatim>\<open>GetLastError\<close>, \<^verbatim>\<open>SetLastError\<close>) and the process error mode
  (\<^verbatim>\<open>GetErrorMode\<close>, \<^verbatim>\<open>SetErrorMode\<close>). All four are fields of one state
  record that every function takes and returns. The record also keeps the list of
  the platform calls made so far, in order, so that a theorem can say which calls a
  function makes and with which arguments.
\<close>

subsection \<open>Data\<close>

type_synonym DWORD = "32 word"
type_synonym UINT = "32 word"
type_synonym BOOL = "32 word"
type_synonym WCHAR = "16 word"
type_synonym uint16_t = "16 word"

text \<open>A \<^verbatim>\<open>void*\<close> or \<^verbatim>\<open>HMODULE\<close>; the null pointer is 0.\<close>

type_synonym pointer = "64 word"

definition NULL :: pointer where
  "NULL = 0"

text \<open>
  A \<^verbatim>\<open>const char*\<close> argument is the list of the bytes in front of its
  terminating NUL; the terminator itself is not in the list.

  The second argument of \<^verbatim>\<open>GetProcAddress\<close> is either a pointer to a name or,
  cast to a pointer, a 16-bit ordinal: \<^verbatim>\<open>(LPCSTR)ordinal\<close>.
\<close>

datatype proc_name = Ordinal uint16_t | Name string

datatype call =
    Call_GetModuleHandle_NULL
  | Call_MultiByteToWideChar string int
  | Call_malloc nat
  | Call_free
  | Call_SetLastError DWORD
  | Call_SetErrorMode UINT
  | Call_LoadLibraryW "WCHAR list"
  | Call_FreeLibrary pointer
  | Call_GetProcAddress pointer proc_name

record state =
  lastError :: DWORD
  errno :: int
  thread_last_error :: DWORD
  error_mode :: UINT
  calls :: "call list"

text \<open>
  What the platform answers is a parameter of the model. Each answer may depend on
  the whole state at the moment of the call, which includes the history of calls. A
  Win32 call that can fail answers with its result and with the thread's last-error
  code after the call.
  \<^item> \<open>main_module\<close>: the value of \<^verbatim>\<open>GetModuleHandle(NULL)\<close>, the handle of the
    image of the running process;
  \<^item> \<open>MultiByteToWideChar_CP_UTF8 input cch\<close>: the returned count, the wide
    characters written to the output buffer, and the last-error code;
  \<^item> \<open>malloc_ok n\<close>: whether \<^verbatim>\<open>malloc(n)\<close> returns a block;
  \<^item> \<open>LoadLibraryW_result\<close>, \<open>FreeLibrary_result\<close>, \<open>GetProcAddress_result\<close>:
    result and last-error code.
\<close>

record platform =
  main_module :: pointer
  MultiByteToWideChar_CP_UTF8 :: "string \<Rightarrow> int \<Rightarrow> state \<Rightarrow> int \<times> WCHAR list \<times> DWORD"
  malloc_ok :: "nat \<Rightarrow> state \<Rightarrow> bool"
  LoadLibraryW_result :: "WCHAR list \<Rightarrow> state \<Rightarrow> pointer \<times> DWORD"
  FreeLibrary_result :: "pointer \<Rightarrow> state \<Rightarrow> BOOL \<times> DWORD"
  GetProcAddress_result :: "pointer \<Rightarrow> proc_name \<Rightarrow> state \<Rightarrow> pointer \<times> DWORD"

subsection \<open>Constants of the headers\<close>

definition ERANGE :: int where
  "ERANGE = 34"

definition INTMAX_MAX :: int where
  "INTMAX_MAX = 2 ^ 63 - 1"

definition INTMAX_MIN :: int where
  "INTMAX_MIN = - (2 ^ 63)"

definition UINT16_MAX :: int where
  "UINT16_MAX = 65535"

definition ERROR_OUTOFMEMORY :: DWORD where
  "ERROR_OUTOFMEMORY = 14"

definition SEM_FAILCRITICALERRORS :: UINT where
  "SEM_FAILCRITICALERRORS = 1"

definition sizeof_WCHAR :: int where
  "sizeof_WCHAR = 2"

subsection \<open>The platform calls\<close>

definition record_call :: "call \<Rightarrow> state \<Rightarrow> state" where
  "record_call c s = s\<lparr>calls := calls s @ [c]\<rparr>"

definition GetModuleHandle_NULL :: "platform \<Rightarrow> state \<Rightarrow> pointer \<times> state" where
  "GetModuleHandle_NULL p s = (main_module p, record_call Call_GetModuleHandle_NULL s)"

definition GetLastError :: "state \<Rightarrow> DWORD" where
  "GetLastError s = thread_last_error s"

definition SetLastError :: "DWORD \<Rightarrow> state \<Rightarrow> state" where
  "SetLastError e s = record_call (Call_SetLastError e) (s\<lparr>thread_last_error := e\<rparr>)"

definition GetErrorMode :: "state \<Rightarrow> UINT" where
  "GetErrorMode s = error_mode s"

definition SetErrorMode :: "UINT \<Rightarrow> state \<Rightarrow> state" where
  "SetErrorMode m s = record_call (Call_SetErrorMode m) (s\<lparr>error_mode := m\<rparr>)"

definition MultiByteToWideChar ::
  "platform \<Rightarrow> string \<Rightarrow> int \<Rightarrow> state \<Rightarrow> (int \<times> WCHAR list) \<times> state" where
  "MultiByteToWideChar p input cch s =
     (case MultiByteToWideChar_CP_UTF8 p input cch s of
        (n, out, e) \<Rightarrow>
          ((n, out),
           record_call (Call_MultiByteToWideChar input cch) (s\<lparr>thread_last_error := e\<rparr>)))"

text \<open>\<^verbatim>\<open>malloc\<close> takes a \<^verbatim>\<open>size_t\<close>, 64 bits wide here.\<close>

definition malloc :: "platform \<Rightarrow> int \<Rightarrow> state \<Rightarrow> bool \<times> state" where
  "malloc p n s =
     (let size = nat (n mod 2 ^ 64)
      in (malloc_ok p size s, record_call (Call_malloc size) s))"

definition free :: "state \<Rightarrow> state" where
  "free s = record_call Call_free s"

definition LoadLibraryW :: "platform \<Rightarrow> WCHAR list \<Rightarrow> state \<Rightarrow> pointer \<times> state" where
  "LoadLibraryW p file s =
     (case LoadLibraryW_result p file s of
        (h, e) \<Rightarrow> (h, record_call (Call_LoadLibraryW file) (s\<lparr>thread_last_error := e\<rparr>)))"

definition FreeLibrary :: "platform \<Rightarrow> pointer \<Rightarrow> state \<Rightarrow> BOOL \<times> state" where
  "FreeLibrary p h s =
     (case FreeLibrary_result p h s of
        (b, e) \<Rightarrow> (b, record_call (Call_FreeLibrary h) (s\<lparr>thread_last_error := e\<rparr>)))"

definition GetProcAddress ::
  "platform \<Rightarrow> pointer \<Rightarrow> proc_name \<Rightarrow> state \<Rightarrow> pointer \<times> state" where
  "GetProcAddress p h n s =
     (case GetProcAddress_result p h n s of
        (a, e) \<Rightarrow> (a, record_call (Call_GetProcAddress h n) (s\<lparr>thread_last_error := e\<rparr>)))"

subsection \<open>The C library: strtoimax and the \<^verbatim>\<open>%lu\<close> conversion\<close>

text \<open>
  \<^verbatim>\<open>strtoimax\<close> belongs to the C library, not to this repository. It is modelled
  from ISO C (7.8.2.3 with 7.22.1.4), in the "C" locale, for base 10: it skips
  white space, reads an optional sign and then the longest run of decimal digits.
  Without a digit nothing is converted: the result is 0 and the end pointer is the
  start of the string. A value outside \<^verbatim>\<open>intmax_t\<close> gives the nearest bound and
  sets \<^verbatim>\<open>errno\<close> to \<^verbatim>\<open>ERANGE\<close>; otherwise \<^verbatim>\<open>errno\<close> is left as it was. The end
  pointer is an offset into the string.
\<close>

definition isspace :: "char \<Rightarrow> bool" where
  "isspace c = (c \<in> set [CHR '' '', CHR 0x09, CHR 0x0A, CHR 0x0B, CHR 0x0C, CHR 0x0D])"

definition isdigit :: "char \<Rightarrow> bool" where
  "isdigit c = (c \<in> set ''0123456789'')"

definition digit_value :: "char \<Rightarrow> nat" where
  "digit_value c = of_char c - 48"

definition decimal_value :: "string \<Rightarrow> nat" where
  "decimal_value ds = foldl (\<lambda>acc c. 10 * acc + digit_value c) 0 ds"

definition strtoimax :: "string \<Rightarrow> state \<Rightarrow> (int \<times> nat) \<times> state" where
  "strtoimax str s =
     (let blanks = takeWhile isspace str;
          rest = dropWhile isspace str;
          negative = (rest \<noteq> [] \<and> hd rest = CHR ''-'');
          signed = (rest \<noteq> [] \<and> (hd rest = CHR ''-'' \<or> hd rest = CHR ''+''));
          body = (if signed then tl rest else rest);
          digits = takeWhile isdigit body;
          val = (if negative then - int (decimal_value digits) else int (decimal_value digits));
          end = length blanks + (if signed then 1 else 0) + length digits
      in if digits = [] then ((0, 0), s)
         else if val > INTMAX_MAX then ((INTMAX_MAX, end), s\<lparr>errno := ERANGE\<rparr>)
         else if val < INTMAX_MIN then ((INTMAX_MIN, end), s\<lparr>errno := ERANGE\<rparr>)
         else ((val, end), s))"

text \<open>
  The byte at an offset of a C string: beyond the last byte of the list lies the
  terminating NUL.
\<close>

definition char_at :: "string \<Rightarrow> nat \<Rightarrow> char" where
  "char_at str i = (if i < length str then str ! i else CHR 0x00)"

text \<open>The digits that \<^verbatim>\<open>%lu\<close> prints for an unsigned value.\<close>

fun decimal :: "nat \<Rightarrow> string" where
  "decimal n =
     (if n < 10 then [''0123456789'' ! n]
      else decimal (n div 10) @ [''0123456789'' ! (n mod 10)])"

declare decimal.simps [simp del]

subsection \<open>The functions of the file\<close>

text \<open>
  \<^verbatim>\<open>UTF8toWCHAR\<close>: the wide string, or \<open>None\<close> for the null pointer it returns on
  failure.
\<close>

definition UTF8toWCHAR :: "platform \<Rightarrow> string \<Rightarrow> state \<Rightarrow> WCHAR list option \<times> state" where
  "UTF8toWCHAR p inputString s =
     (case MultiByteToWideChar p inputString 0 s of
        ((outputSize, _), s1) \<Rightarrow>
          if outputSize = 0 then (None, s1)
          else
            (case malloc p (outputSize * sizeof_WCHAR) s1 of
               (False, s2) \<Rightarrow> (None, SetLastError ERROR_OUTOFMEMORY s2)
             | (True, s2) \<Rightarrow>
                 (case MultiByteToWideChar p inputString outputSize s2 of
                    ((written, outputString), s3) \<Rightarrow>
                      if written \<noteq> outputSize then (None, free s3)
                      else (Some outputString, s3))))"

text \<open>
  \<^verbatim>\<open>str_to_uint16\<close>: \<open>Some v\<close> when it returns true with \<^verbatim>\<open>*res = v\<close>, \<open>None\<close>
  when it returns false and leaves \<^verbatim>\<open>*res\<close> alone.
\<close>

definition str_to_uint16 :: "string \<Rightarrow> state \<Rightarrow> uint16_t option \<times> state" where
  "str_to_uint16 str s =
     (case strtoimax str (s\<lparr>errno := 0\<rparr>) of
        ((val, end), s1) \<Rightarrow>
          if errno s1 = ERANGE \<or> val < 0 \<or> val > UINT16_MAX \<or> end = 0
             \<or> char_at str end \<noteq> CHR 0x00
          then (None, s1)
          else (Some (word_of_int val), s1))"

text \<open>\<^verbatim>\<open>dlopen\<close>: \<open>file\<close> is \<open>None\<close> for a null pointer.\<close>

definition dlopen :: "platform \<Rightarrow> string option \<Rightarrow> int \<Rightarrow> state \<Rightarrow> pointer \<times> state" where
  "dlopen p file mode s =
     (case file of
        None \<Rightarrow> GetModuleHandle_NULL p s
      | Some f \<Rightarrow>
          (case UTF8toWCHAR p f s of
             (None, s1) \<Rightarrow> (NULL, s1\<lparr>lastError := GetLastError s1\<rparr>)
           | (Some unicodeFilename, s1) \<Rightarrow>
               (let errorMode = GetErrorMode s1;
                    s2 = SetErrorMode (errorMode OR SEM_FAILCRITICALERRORS) s1
                in case LoadLibraryW p unicodeFilename s2 of
                     (handle, s3) \<Rightarrow>
                       (let s4 = (if handle = NULL then s3\<lparr>lastError := GetLastError s3\<rparr>
                                  else s3);
                            s5 = SetErrorMode errorMode s4;
                            s6 = free s5
                        in (handle, s6)))))"

definition dlclose :: "platform \<Rightarrow> pointer \<Rightarrow> state \<Rightarrow> int \<times> state" where
  "dlclose p handle s =
     (case GetModuleHandle_NULL p s of
        (main, s1) \<Rightarrow>
          (case (if handle \<noteq> main
                 then (case FreeLibrary p handle s1 of
                         (b, s2) \<Rightarrow> ((if b = 0 then 1 else 0), s2))
                 else (0, s1)) of
             (rc, s2) \<Rightarrow>
               (rc, if rc \<noteq> 0 then s2\<lparr>lastError := GetLastError s2\<rparr> else s2)))"

definition dlsym :: "platform \<Rightarrow> pointer \<Rightarrow> string \<Rightarrow> state \<Rightarrow> pointer \<times> state" where
  "dlsym p handle name s =
     (case str_to_uint16 name s of
        (res, s1) \<Rightarrow>
          (case (case res of
                   Some ordinal \<Rightarrow> GetProcAddress p handle (Ordinal ordinal) s1
                 | None \<Rightarrow> GetProcAddress p handle (Name name) s1) of
             (address, s2) \<Rightarrow>
               (address, if address = NULL then s2\<lparr>lastError := GetLastError s2\<rparr> else s2)))"

text \<open>
  \<^verbatim>\<open>dlerror\<close>: the text that \<^verbatim>\<open>sprintf\<close> writes into the static buffer
  \<^verbatim>\<open>errorMessage\<close> of 64 bytes, or \<open>None\<close> for the null pointer.
\<close>

definition errorMessage_size :: nat where
  "errorMessage_size = 64"

definition sprintf_Win32_error :: "DWORD \<Rightarrow> string" where
  "sprintf_Win32_error e = ''Win32 error '' @ decimal (unat e)"

definition dlerror :: "state \<Rightarrow> string option \<times> state" where
  "dlerror s =
     (if lastError s \<noteq> 0 then (Some (sprintf_Win32_error (lastError s)), s\<lparr>lastError := 0\<rparr>)
      else (None, s))"

subsection \<open>A sample platform\<close>

text \<open>
  One concrete platform and state, on which the theorems below are evaluated. The
  process image is at \<open>0x400000\<close>; the only library that loads is \<^verbatim>\<open>a.dll\<close>, at
  \<open>0x10000000\<close>; it exports \<^verbatim>\<open>f\<close> and the ordinal 12. Failures answer with the
  Win32 codes 126 (module not found), 6 (invalid handle) and 127 (procedure not
  found). Paths are ASCII, so the conversion to wide characters widens each byte.
\<close>

definition sample_state :: state where
  "sample_state =
     \<lparr>lastError = 0, errno = 0, thread_last_error = 0, error_mode = 2, calls = []\<rparr>"

definition sample_platform :: platform where
  "sample_platform =
     \<lparr>main_module = 0x400000,
      MultiByteToWideChar_CP_UTF8 =
        (\<lambda>input cch s. (int (length input) + 1, map of_char input @ [0], thread_last_error s)),
      malloc_ok = (\<lambda>n s. True),
      LoadLibraryW_result =
        (\<lambda>file s. if file = map of_char ''a.dll'' @ [0] then (0x10000000, thread_last_error s)
                   else (0, 126)),
      FreeLibrary_result =
        (\<lambda>h s. if h = 0x10000000 then (1, thread_last_error s) else (0, 6)),
      GetProcAddress_result =
        (\<lambda>h n s. if h = 0x10000000 \<and> (n = Ordinal 12 \<or> n = Name ''f'')
                  then (0x10001000, thread_last_error s) else (0, 127))\<rparr>"

text \<open>
  The argument that \<^verbatim>\<open>dlsym\<close> hands to \<^verbatim>\<open>GetProcAddress\<close>, given what
  \<^verbatim>\<open>str_to_uint16\<close> returned.
\<close>

definition proc_name_of :: "string \<Rightarrow> uint16_t option \<Rightarrow> proc_name" where
  "proc_name_of name res = (case res of Some ordinal \<Rightarrow> Ordinal ordinal | None \<Rightarrow> Name name)"

section \<open>Properties\<close>

subsection \<open>What each function leaves alone\<close>

lemma strtoimax_frame:
  "lastError (snd (strtoimax str s)) = lastError s"
  "thread_last_error (snd (strtoimax str s)) = thread_last_error s"
  "error_mode (snd (strtoimax str s)) = error_mode s"
  "calls (snd (strtoimax str s)) = calls s"
  by (simp_all add: strtoimax_def Let_def)

lemma strtoimax_result_indep:
  "fst (strtoimax str s) = fst (strtoimax str t)"
  by (simp add: strtoimax_def Let_def)

lemma strtoimax_errno_indep:
  "errno s = errno t \<Longrightarrow> errno (snd (strtoimax str s)) = errno (snd (strtoimax str t))"
  by (simp add: strtoimax_def Let_def)

lemma str_to_uint16_frame:
  "lastError (snd (str_to_uint16 str s)) = lastError s"
  "thread_last_error (snd (str_to_uint16 str s)) = thread_last_error s"
  "error_mode (snd (str_to_uint16 str s)) = error_mode s"
  "calls (snd (str_to_uint16 str s)) = calls s"
  using strtoimax_frame [of str "s\<lparr>errno := 0\<rparr>"]
  by (auto simp add: str_to_uint16_def split: prod.splits)

lemma str_to_uint16_result_indep:
  "fst (str_to_uint16 str s) = fst (str_to_uint16 str t)"
  using strtoimax_result_indep [of str "s\<lparr>errno := 0\<rparr>" "t\<lparr>errno := 0\<rparr>"]
    strtoimax_errno_indep [of "s\<lparr>errno := 0\<rparr>" "t\<lparr>errno := 0\<rparr>" str]
  by (auto simp add: str_to_uint16_def split: prod.splits)

lemma GetProcAddress_frame:
  "lastError (snd (GetProcAddress p h n s)) = lastError s"
  "error_mode (snd (GetProcAddress p h n s)) = error_mode s"
  "calls (snd (GetProcAddress p h n s)) = calls s @ [Call_GetProcAddress h n]"
  by (simp_all add: GetProcAddress_def record_call_def split: prod.splits)

lemma dlsym_unfold:
  "dlsym p h name s =
     (let s1 = snd (str_to_uint16 name s);
          r = GetProcAddress p h (proc_name_of name (fst (str_to_uint16 name s))) s1
      in (fst r, if fst r = NULL then (snd r)\<lparr>lastError := GetLastError (snd r)\<rparr> else snd r))"
  by (simp add: dlsym_def proc_name_of_def Let_def split: prod.splits option.splits)

lemma dlsym_calls:
  "calls (snd (dlsym p h name s)) =
     calls s @ [Call_GetProcAddress h (proc_name_of name (fst (str_to_uint16 name s)))]"
  by (simp add: dlsym_unfold Let_def GetProcAddress_frame str_to_uint16_frame)

subsection \<open>The mode argument of dlopen\<close>

text \<open>
  Claim C7. Two calls of \<^verbatim>\<open>dlopen\<close> from the same state with the same path, one
  with mode \<open>m1\<close> and one with mode \<open>m2\<close>, return the same handle and the same
  state: the mode has no influence.
\<close>

theorem dlopen_ignores_mode:
  "dlopen p file m1 s = dlopen p file m2 s"
  by (simp add: dlopen_def)

subsection \<open>The dispatch of dlsym depends on the name alone\<close>

text \<open>
  Claim C10. Whether \<^verbatim>\<open>dlsym\<close> looks up by ordinal or by name, and which
  ordinal, is a function of the name string alone: two calls with the same name,
  on any platforms, handles and states (whatever \<^verbatim>\<open>errno\<close> and
  \<^verbatim>\<open>lastError\<close> hold), get the same answer from \<^verbatim>\<open>str_to_uint16\<close> and hand
  the same second argument to \<^verbatim>\<open>GetProcAddress\<close>, in the one platform call that
  each of them makes.
\<close>

theorem dlsym_dispatch_deterministic:
  "fst (str_to_uint16 name s1) = fst (str_to_uint16 name s2) \<and>
   (\<exists>d. calls (snd (dlsym p1 h1 name s1)) = calls s1 @ [Call_GetProcAddress h1 d] \<and>
        calls (snd (dlsym p2 h2 name s2)) = calls s2 @ [Call_GetProcAddress h2 d])"
proof -
  have eq: "fst (str_to_uint16 name s1) = fst (str_to_uint16 name s2)"
    by (rule str_to_uint16_result_indep)
  have "calls (snd (dlsym p1 h1 name s1)) =
          calls s1 @ [Call_GetProcAddress h1 (proc_name_of name (fst (str_to_uint16 name s1)))]"
    by (rule dlsym_calls)
  moreover have "calls (snd (dlsym p2 h2 name s2)) =
          calls s2 @ [Call_GetProcAddress h2 (proc_name_of name (fst (str_to_uint16 name s1)))]"
    by (simp add: dlsym_calls eq)
  ultimately show ?thesis using eq by blast
qed

subsection \<open>dlerror\<close>

lemma decimal_length: "n < 10 ^ Suc k \<Longrightarrow> length (decimal n) \<le> Suc k"
proof (induction k arbitrary: n)
  case 0
  then show ?case by (simp add: decimal.simps [of n])
next
  case (Suc k)
  show ?case
  proof (cases "n < 10")
    case True
    then show ?thesis by (simp add: decimal.simps [of n])
  next
    case False
    from Suc.prems have "n div 10 < 10 ^ Suc k" by simp
    then have "length (decimal (n div 10)) \<le> Suc k" by (rule Suc.IH)
    with False show ?thesis by (simp add: decimal.simps [of n])
  qed
qed

text \<open>
  Claim C8. For every 32-bit value of \<^verbatim>\<open>lastError\<close>, the text that
  \<^verbatim>\<open>sprintf\<close> writes, the prefix of 12 bytes and at most 10 digits, takes with
  its terminating NUL at most 23 bytes, which is within the 64 bytes of
  \<^verbatim>\<open>errorMessage\<close>.
\<close>

theorem errorMessage_never_overflows:
  "length (sprintf_Win32_error e) + 1 \<le> 23 \<and> 23 \<le> errorMessage_size"
proof -
  have "unat e < 2 ^ 32" using unsigned_less [of e] by simp
  then have "unat e < 10 ^ Suc 9" by simp
  then have "length (decimal (unat e)) \<le> Suc 9" by (rule decimal_length)
  then show ?thesis by (simp add: sprintf_Win32_error_def errorMessage_size_def)
qed

text \<open>
  Claim C4. When \<^verbatim>\<open>lastError\<close> is not zero, \<^verbatim>\<open>dlerror\<close> returns the literal
  \<^verbatim>\<open>Win32 error\<close> and a blank followed by the code in decimal, and sets
  \<^verbatim>\<open>lastError\<close> to zero, so that a second call right after it returns the null
  pointer. When \<^verbatim>\<open>lastError\<close> is zero, it returns the null pointer and
  \<^verbatim>\<open>lastError\<close> stays zero.
\<close>

theorem dlerror_consumes:
  "(lastError s \<noteq> 0 \<longrightarrow>
      fst (dlerror s) = Some (''Win32 error '' @ decimal (unat (lastError s))) \<and>
      lastError (snd (dlerror s)) = 0 \<and>
      fst (dlerror (snd (dlerror s))) = None) \<and>
   (lastError s = 0 \<longrightarrow> fst (dlerror s) = None \<and> lastError (snd (dlerror s)) = 0)"
  by (simp add: dlerror_def sprintf_Win32_error_def)

theorem dlerror_consumes_witness:
  "lastError (sample_state\<lparr>lastError := 126\<rparr>) \<noteq> 0 \<and>
   fst (dlerror (sample_state\<lparr>lastError := 126\<rparr>)) = Some ''Win32 error 126'' \<and>
   lastError (snd (dlerror (sample_state\<lparr>lastError := 126\<rparr>))) = 0 \<and>
   fst (dlerror (snd (dlerror (sample_state\<lparr>lastError := 126\<rparr>)))) = None \<and>
   lastError sample_state = 0 \<and>
   fst (dlerror sample_state) = None \<and>
   lastError (snd (dlerror sample_state)) = 0"
proof -
  have nz: "lastError (sample_state\<lparr>lastError := 126\<rparr>) \<noteq> 0" by simp
  have z: "lastError sample_state = 0" by (simp add: sample_state_def)
  have d: "decimal 126 = ''126''" by (simp add: decimal.simps)
  from dlerror_consumes [of "sample_state\<lparr>lastError := 126\<rparr>"] nz
  have "fst (dlerror (sample_state\<lparr>lastError := 126\<rparr>)) = Some ''Win32 error 126'' \<and>
        lastError (snd (dlerror (sample_state\<lparr>lastError := 126\<rparr>))) = 0 \<and>
        fst (dlerror (snd (dlerror (sample_state\<lparr>lastError := 126\<rparr>)))) = None"
    by (simp add: d)
  moreover from dlerror_consumes [of sample_state] z
  have "fst (dlerror sample_state) = None \<and> lastError (snd (dlerror sample_state)) = 0"
    by blast
  ultimately show ?thesis using nz z by blast
qed

subsection \<open>dlopen and dlclose, step by step\<close>

lemma MultiByteToWideChar_frame:
  "lastError (snd (MultiByteToWideChar p i n s)) = lastError s"
  "error_mode (snd (MultiByteToWideChar p i n s)) = error_mode s"
  by (simp_all add: MultiByteToWideChar_def record_call_def split: prod.splits)

lemma UTF8toWCHAR_frame:
  "lastError (snd (UTF8toWCHAR p f s)) = lastError s"
  "error_mode (snd (UTF8toWCHAR p f s)) = error_mode s"
  by (auto simp add: UTF8toWCHAR_def MultiByteToWideChar_def malloc_def free_def SetLastError_def
      record_call_def Let_def split: prod.splits bool.splits)

lemma LoadLibraryW_frame:
  "lastError (snd (LoadLibraryW p w s)) = lastError s"
  "error_mode (snd (LoadLibraryW p w s)) = error_mode s"
  "calls (snd (LoadLibraryW p w s)) = calls s @ [Call_LoadLibraryW w]"
  by (simp_all add: LoadLibraryW_def record_call_def split: prod.splits)

lemma FreeLibrary_frame:
  "lastError (snd (FreeLibrary p h s)) = lastError s"
  "error_mode (snd (FreeLibrary p h s)) = error_mode s"
  "calls (snd (FreeLibrary p h s)) = calls s @ [Call_FreeLibrary h]"
  by (simp_all add: FreeLibrary_def record_call_def split: prod.splits)

lemma dlopen_NULL: "dlopen p None mode s = (main_module p, record_call Call_GetModuleHandle_NULL s)"
  by (simp add: dlopen_def GetModuleHandle_NULL_def)

lemma dlopen_conversion_fails:
  "fst (UTF8toWCHAR p f s) = None \<Longrightarrow>
   dlopen p (Some f) mode s =
     (NULL, (snd (UTF8toWCHAR p f s))\<lparr>lastError := GetLastError (snd (UTF8toWCHAR p f s))\<rparr>)"
  by (cases "UTF8toWCHAR p f s") (simp add: dlopen_def)

lemma dlopen_loads:
  "fst (UTF8toWCHAR p f s) = Some w \<Longrightarrow>
   dlopen p (Some f) mode s =
     (let s1 = snd (UTF8toWCHAR p f s);
          s2 = SetErrorMode (error_mode s OR SEM_FAILCRITICALERRORS) s1;
          r = LoadLibraryW p w s2;
          s4 = (if fst r = NULL then (snd r)\<lparr>lastError := GetLastError (snd r)\<rparr> else snd r)
      in (fst r, free (SetErrorMode (error_mode s) s4)))"
  using UTF8toWCHAR_frame(2) [of p f s]
  by (cases "UTF8toWCHAR p f s")
    (simp add: dlopen_def GetErrorMode_def Let_def split: prod.splits)

lemma dlclose_unfold:
  "dlclose p h s =
     (let s1 = record_call Call_GetModuleHandle_NULL s
      in if h \<noteq> main_module p
         then (let r = FreeLibrary p h s1
               in if fst r = 0 then (1, (snd r)\<lparr>lastError := GetLastError (snd r)\<rparr>)
                  else (0, snd r))
         else (0, s1))"
  by (simp add: dlclose_def GetModuleHandle_NULL_def Let_def split: prod.splits)

lemma dlopen_lastError:
  assumes "main_module p \<noteq> NULL"
  shows "lastError (snd (dlopen p file mode s)) =
     (if fst (dlopen p file mode s) = NULL then GetLastError (snd (dlopen p file mode s))
      else lastError s)"
proof (cases "file")
  case None
  with assms show ?thesis by (simp add: dlopen_NULL record_call_def)
next
  case (Some f)
  show ?thesis
  proof (cases "fst (UTF8toWCHAR p f s)")
    case None
    with Some show ?thesis
      by (simp add: dlopen_conversion_fails GetLastError_def)
  next
    case (Some w)
    with \<open>file = Some f\<close> show ?thesis
      by (simp add: dlopen_loads Let_def free_def SetErrorMode_def record_call_def
          GetLastError_def LoadLibraryW_frame UTF8toWCHAR_frame)
  qed
qed

lemma dlclose_lastError:
  "lastError (snd (dlclose p h s)) =
     (if fst (dlclose p h s) \<noteq> 0 then GetLastError (snd (dlclose p h s)) else lastError s)"
  by (simp add: dlclose_unfold Let_def GetLastError_def FreeLibrary_frame record_call_def)

lemma dlsym_lastError:
  "lastError (snd (dlsym p h name s)) =
     (if fst (dlsym p h name s) = NULL then GetLastError (snd (dlsym p h name s)) else lastError s)"
  by (simp add: dlsym_unfold Let_def GetLastError_def GetProcAddress_frame str_to_uint16_frame)

subsection \<open>Runs on the sample platform\<close>

lemmas sample_defs =
  sample_platform_def sample_state_def dlopen_def dlclose_def dlsym_def UTF8toWCHAR_def
  str_to_uint16_def strtoimax_def MultiByteToWideChar_def malloc_def free_def LoadLibraryW_def
  FreeLibrary_def GetProcAddress_def GetModuleHandle_NULL_def GetLastError_def SetLastError_def
  GetErrorMode_def SetErrorMode_def record_call_def isspace_def isdigit_def decimal_value_def
  digit_value_def char_at_def NULL_def ERANGE_def INTMAX_MAX_def INTMAX_MIN_def UINT16_MAX_def
  SEM_FAILCRITICALERRORS_def sizeof_WCHAR_def ERROR_OUTOFMEMORY_def Let_def

lemma sample_convert_a:
  "UTF8toWCHAR sample_platform ''a.dll'' sample_state =
     (Some (map of_char ''a.dll'' @ [0]),
      sample_state\<lparr>calls := [Call_MultiByteToWideChar ''a.dll'' 0, Call_malloc 12,
                              Call_MultiByteToWideChar ''a.dll'' 6]\<rparr>)"
  by (simp add: sample_defs)

lemma sample_convert_b:
  "UTF8toWCHAR sample_platform ''b.dll'' sample_state =
     (Some (map of_char ''b.dll'' @ [0]),
      sample_state\<lparr>calls := [Call_MultiByteToWideChar ''b.dll'' 0, Call_malloc 12,
                              Call_MultiByteToWideChar ''b.dll'' 6]\<rparr>)"
  by (simp add: sample_defs)

lemma sample_dlopen_a:
  "fst (dlopen sample_platform (Some ''a.dll'') 0 sample_state) = 0x10000000"
  by (simp add: sample_defs)

lemma sample_dlopen_b:
  "fst (dlopen sample_platform (Some ''b.dll'') 0 sample_state) = 0"
  "thread_last_error (snd (dlopen sample_platform (Some ''b.dll'') 0 sample_state)) = 126"
  by (simp_all add: sample_defs)

lemma sample_dlclose:
  "fst (dlclose sample_platform 0x10000000 sample_state) = 0"
  "fst (dlclose sample_platform 0x10000001 sample_state) = 1"
  "thread_last_error (snd (dlclose sample_platform 0x10000001 sample_state)) = 6"
  by (simp_all add: sample_defs)

lemma sample_dlsym:
  "fst (dlsym sample_platform 0x10000000 ''12'' sample_state) = 0x10001000"
  "fst (dlsym sample_platform 0x10000001 ''g'' sample_state) = 0"
  "thread_last_error (snd (dlsym sample_platform 0x10000001 ''g'' sample_state)) = 127"
  by (simp_all add: sample_defs)

lemma sample_success:
  "fst (dlopen sample_platform (Some ''a.dll'') 0 (sample_state\<lparr>lastError := 5\<rparr>)) = 0x10000000"
  "fst (dlclose sample_platform 0x10000000 (sample_state\<lparr>lastError := 5\<rparr>)) = 0"
  "fst (dlsym sample_platform 0x10000000 ''12'' (sample_state\<lparr>lastError := 5\<rparr>)) = 0x10001000"
  by (simp_all add: sample_defs)

subsection \<open>lastError is written exactly on failure\<close>

text \<open>
  Claim C3. \<^verbatim>\<open>dlopen\<close>, \<^verbatim>\<open>dlclose\<close> and \<^verbatim>\<open>dlsym\<close> store the platform's error
  code in \<^verbatim>\<open>lastError\<close> if and only if they fail. When the call fails (a null
  handle, a null address, a close status other than 0), \<^verbatim>\<open>lastError\<close> holds
  afterwards what \<^verbatim>\<open>GetLastError\<close> answers; when it succeeds, \<^verbatim>\<open>lastError\<close> is
  what it was before the call. The handle of the running image, which
  \<^verbatim>\<open>GetModuleHandle(NULL)\<close> answers, is taken not to be null, as Win32 promises.
\<close>

theorem lastError_written_iff_failure:
  assumes "main_module p \<noteq> NULL"
  shows "(fst (dlopen p file mode s) = NULL \<longrightarrow>
            lastError (snd (dlopen p file mode s)) = GetLastError (snd (dlopen p file mode s))) \<and>
         (fst (dlopen p file mode s) \<noteq> NULL \<longrightarrow>
            lastError (snd (dlopen p file mode s)) = lastError s) \<and>
         (fst (dlclose p h s) \<noteq> 0 \<longrightarrow>
            lastError (snd (dlclose p h s)) = GetLastError (snd (dlclose p h s))) \<and>
         (fst (dlclose p h s) = 0 \<longrightarrow>
            lastError (snd (dlclose p h s)) = lastError s) \<and>
         (fst (dlsym p h name s) = NULL \<longrightarrow>
            lastError (snd (dlsym p h name s)) = GetLastError (snd (dlsym p h name s))) \<and>
         (fst (dlsym p h name s) \<noteq> NULL \<longrightarrow>
            lastError (snd (dlsym p h name s)) = lastError s)"
  using dlopen_lastError [OF assms, of "file" mode s] dlclose_lastError [of p h s]
    dlsym_lastError [of p h name s]
  by simp

theorem lastError_written_iff_failure_witness:
  "main_module sample_platform \<noteq> NULL \<and>
   fst (dlopen sample_platform (Some ''b.dll'') 0 sample_state) = NULL \<and>
   lastError (snd (dlopen sample_platform (Some ''b.dll'') 0 sample_state)) = 126 \<and>
   fst (dlclose sample_platform 0x10000001 sample_state) \<noteq> 0 \<and>
   lastError (snd (dlclose sample_platform 0x10000001 sample_state)) = 6 \<and>
   fst (dlsym sample_platform 0x10000001 ''g'' sample_state) = NULL \<and>
   lastError (snd (dlsym sample_platform 0x10000001 ''g'' sample_state)) = 127 \<and>
   fst (dlopen sample_platform (Some ''a.dll'') 0 (sample_state\<lparr>lastError := 5\<rparr>)) \<noteq> NULL \<and>
   lastError (snd (dlopen sample_platform (Some ''a.dll'') 0 (sample_state\<lparr>lastError := 5\<rparr>))) = 5 \<and>
   fst (dlclose sample_platform 0x10000000 (sample_state\<lparr>lastError := 5\<rparr>)) = 0 \<and>
   lastError (snd (dlclose sample_platform 0x10000000 (sample_state\<lparr>lastError := 5\<rparr>))) = 5 \<and>
   fst (dlsym sample_platform 0x10000000 ''12'' (sample_state\<lparr>lastError := 5\<rparr>)) \<noteq> NULL \<and>
   lastError (snd (dlsym sample_platform 0x10000000 ''12'' (sample_state\<lparr>lastError := 5\<rparr>))) = 5"
proof -
  have m: "main_module sample_platform \<noteq> NULL"
    by (simp add: sample_platform_def NULL_def)
  show ?thesis
    using m
      lastError_written_iff_failure [OF m, of "Some ''b.dll''" 0 sample_state "0x10000001" "''g''"]
      lastError_written_iff_failure [OF m, of "Some ''a.dll''" 0 "sample_state\<lparr>lastError := 5\<rparr>"
        "0x10000000" "''12''"]
    by (simp add: sample_success sample_dlopen_b sample_dlclose sample_dlsym NULL_def
        GetLastError_def)
qed

subsection \<open>The main image\<close>

text \<open>
  Claim C5. \<^verbatim>\<open>dlopen\<close> with a null path returns the handle of the main image,
  which is not null, and leaves \<^verbatim>\<open>lastError\<close> and the error mode alone: its only
  platform call is \<^verbatim>\<open>GetModuleHandle(NULL)\<close>. \<^verbatim>\<open>dlclose\<close> of that handle, in
  any state \<open>t\<close>, returns 0 and does not call \<^verbatim>\<open>FreeLibrary\<close>: its only platform
  call is \<^verbatim>\<open>GetModuleHandle(NULL)\<close> again.
\<close>

theorem main_image_open_close:
  assumes "main_module p \<noteq> NULL"
  shows "fst (dlopen p None mode s) = main_module p \<and>
         fst (dlopen p None mode s) \<noteq> NULL \<and>
         lastError (snd (dlopen p None mode s)) = lastError s \<and>
         error_mode (snd (dlopen p None mode s)) = error_mode s \<and>
         calls (snd (dlopen p None mode s)) = calls s @ [Call_GetModuleHandle_NULL] \<and>
         fst (dlclose p (fst (dlopen p None mode s)) t) = 0 \<and>
         lastError (snd (dlclose p (fst (dlopen p None mode s)) t)) = lastError t \<and>
         calls (snd (dlclose p (fst (dlopen p None mode s)) t)) =
           calls t @ [Call_GetModuleHandle_NULL]"
  using assms by (simp add: dlopen_NULL dlclose_unfold record_call_def)

theorem main_image_open_close_witness:
  "main_module sample_platform \<noteq> NULL \<and>
   fst (dlopen sample_platform None 0 sample_state) = 0x400000 \<and>
   lastError (snd (dlopen sample_platform None 0 sample_state)) = 0 \<and>
   error_mode (snd (dlopen sample_platform None 0 sample_state)) = 2 \<and>
   calls (snd (dlopen sample_platform None 0 sample_state)) = [Call_GetModuleHandle_NULL] \<and>
   fst (dlclose sample_platform 0x400000 (snd (dlopen sample_platform None 0 sample_state))) = 0 \<and>
   calls (snd (dlclose sample_platform 0x400000
       (snd (dlopen sample_platform None 0 sample_state)))) =
     [Call_GetModuleHandle_NULL, Call_GetModuleHandle_NULL]"
proof -
  have m: "main_module sample_platform \<noteq> NULL"
    by (simp add: sample_platform_def NULL_def)
  have v: "main_module sample_platform = 0x400000"
    by (simp add: sample_platform_def)
  have s: "lastError sample_state = 0" "error_mode sample_state = 2" "calls sample_state = []"
    by (simp_all add: sample_state_def)
  note t = main_image_open_close [OF m, of 0 sample_state
      "snd (dlopen sample_platform None 0 sample_state)"]
  from t have h: "fst (dlopen sample_platform None 0 sample_state) = 0x400000"
    by (simp add: v)
  from t have c: "calls (snd (dlopen sample_platform None 0 sample_state)) =
      [Call_GetModuleHandle_NULL]"
    by (simp add: s)
  from m h c t [unfolded h c s] show ?thesis
    by simp
qed

subsection \<open>The error mode around LoadLibraryW\<close>

text \<open>
  Claim C6. When the path is not null and \<^verbatim>\<open>UTF8toWCHAR\<close> returns a wide string
  \<open>w\<close>, \<^verbatim>\<open>dlopen\<close> sets the error mode to its value at entry with
  \<^verbatim>\<open>SEM_FAILCRITICALERRORS\<close> added, calls \<^verbatim>\<open>LoadLibraryW\<close> in that mode, and
  then sets the error mode back to its value at entry, whether the load returned a
  handle or null: after the conversion the platform calls are, in this order,
  \<^verbatim>\<open>SetErrorMode\<close> with the flag, \<^verbatim>\<open>LoadLibraryW\<close>, \<^verbatim>\<open>SetErrorMode\<close> with the
  old mode, and \<^verbatim>\<open>free\<close>; the error mode at exit is the one at entry.
\<close>

theorem dlopen_restores_error_mode:
  assumes "UTF8toWCHAR p f s = (Some w, s1)"
  shows "error_mode (SetErrorMode (error_mode s OR SEM_FAILCRITICALERRORS) s1) =
           error_mode s OR SEM_FAILCRITICALERRORS \<and>
         fst (dlopen p (Some f) mode s) =
           fst (LoadLibraryW p w (SetErrorMode (error_mode s OR SEM_FAILCRITICALERRORS) s1)) \<and>
         calls (snd (dlopen p (Some f) mode s)) =
           calls s1 @ [Call_SetErrorMode (error_mode s OR SEM_FAILCRITICALERRORS),
                       Call_LoadLibraryW w, Call_SetErrorMode (error_mode s), Call_free] \<and>
         error_mode (snd (dlopen p (Some f) mode s)) = error_mode s"
proof -
  from assms have w: "fst (UTF8toWCHAR p f s) = Some w" and s1: "snd (UTF8toWCHAR p f s) = s1"
    by simp_all
  show ?thesis
    by (simp add: dlopen_loads [OF w] s1 Let_def free_def SetErrorMode_def record_call_def
        LoadLibraryW_frame)
qed

theorem dlopen_restores_error_mode_witness:
  "fst (UTF8toWCHAR sample_platform ''a.dll'' sample_state) = Some (map of_char ''a.dll'' @ [0]) \<and>
   fst (dlopen sample_platform (Some ''a.dll'') 0 sample_state) = 0x10000000 \<and>
   calls (snd (dlopen sample_platform (Some ''a.dll'') 0 sample_state)) =
     [Call_MultiByteToWideChar ''a.dll'' 0, Call_malloc 12, Call_MultiByteToWideChar ''a.dll'' 6,
      Call_SetErrorMode 3, Call_LoadLibraryW (map of_char ''a.dll'' @ [0]), Call_SetErrorMode 2,
      Call_free] \<and>
   error_mode (snd (dlopen sample_platform (Some ''a.dll'') 0 sample_state)) = 2 \<and>
   fst (UTF8toWCHAR sample_platform ''b.dll'' sample_state) = Some (map of_char ''b.dll'' @ [0]) \<and>
   fst (dlopen sample_platform (Some ''b.dll'') 0 sample_state) = NULL \<and>
   calls (snd (dlopen sample_platform (Some ''b.dll'') 0 sample_state)) =
     [Call_MultiByteToWideChar ''b.dll'' 0, Call_malloc 12, Call_MultiByteToWideChar ''b.dll'' 6,
      Call_SetErrorMode 3, Call_LoadLibraryW (map of_char ''b.dll'' @ [0]), Call_SetErrorMode 2,
      Call_free] \<and>
   error_mode (snd (dlopen sample_platform (Some ''b.dll'') 0 sample_state)) = 2"
proof -
  have m: "error_mode sample_state = 2" "calls sample_state = []"
    by (simp_all add: sample_state_def)
  show ?thesis
    using dlopen_restores_error_mode [OF sample_convert_a, of 0]
      dlopen_restores_error_mode [OF sample_convert_b, of 0]
    by (simp add: m sample_convert_a sample_convert_b sample_dlopen_a sample_dlopen_b
        SEM_FAILCRITICALERRORS_def NULL_def)
qed

subsection \<open>What str_to_uint16 accepts\<close>

lemma str_to_uint16_result:
  "fst (str_to_uint16 str s) =
     (let blanks = takeWhile isspace str;
          rest = dropWhile isspace str;
          negative = (rest \<noteq> [] \<and> hd rest = CHR ''-'');
          signed = (rest \<noteq> [] \<and> (hd rest = CHR ''-'' \<or> hd rest = CHR ''+''));
          body = (if signed then tl rest else rest);
          digits = takeWhile isdigit body;
          val = (if negative then - int (decimal_value digits) else int (decimal_value digits));
          end = length blanks + (if signed then 1 else 0) + length digits
      in if digits = [] \<or> val < 0 \<or> val > 65535 \<or> char_at str end \<noteq> CHR 0x00 then None
         else Some (word_of_int val))"
  by (simp add: str_to_uint16_def strtoimax_def Let_def ERANGE_def INTMAX_MAX_def INTMAX_MIN_def
      UINT16_MAX_def)

lemma isdigit_not_isspace: "isdigit c \<Longrightarrow> \<not> isspace c"
  by (auto simp add: isdigit_def isspace_def)

lemma isdigit_not_sign: "isdigit c \<Longrightarrow> c \<noteq> CHR ''-'' \<and> c \<noteq> CHR ''+''"
  by (auto simp add: isdigit_def)

lemma sign_not_isspace: "\<not> isspace CHR ''+''" "\<not> isspace CHR ''-''"
  by (simp_all add: isspace_def)

lemma char_at_end: "char_at str (length str) = CHR 0x00"
  by (simp add: char_at_def)

lemma str_to_uint16_digits:
  assumes "ds \<noteq> []" and "\<forall>c\<in>set ds. isdigit c" and "decimal_value ds \<le> 65535"
  shows "fst (str_to_uint16 ds s) = Some (word_of_nat (decimal_value ds))"
proof -
  from assms obtain d ds' where ds: "ds = d # ds'" by (cases ds) auto
  with assms have d: "isdigit d" by simp
  have sp: "takeWhile isspace ds = []" "dropWhile isspace ds = ds"
    using d isdigit_not_isspace by (simp_all add: ds)
  have dg: "takeWhile isdigit ds = ds"
    using assms(2) by (simp add: takeWhile_eq_all_conv)
  have hd: "hd ds \<noteq> CHR ''-''" "hd ds \<noteq> CHR ''+''"
    using d isdigit_not_sign by (simp_all add: ds)
  show ?thesis
    using assms(1,3) by (simp add: str_to_uint16_result sp hd dg char_at_end)
qed

lemma str_to_uint16_plus_digits:
  assumes "ds \<noteq> []" and "\<forall>c\<in>set ds. isdigit c" and "decimal_value ds \<le> 65535"
  shows "fst (str_to_uint16 (CHR ''+'' # ds) s) = Some (word_of_nat (decimal_value ds))"
proof -
  have dg: "takeWhile isdigit ds = ds"
    using assms(2) by (simp add: takeWhile_eq_all_conv)
  have "char_at (CHR ''+'' # ds) (Suc (length ds)) = CHR 0x00"
    using char_at_end [of "CHR ''+'' # ds"] by simp
  then show ?thesis
    using assms(1,3) by (simp add: str_to_uint16_result sign_not_isspace dg)
qed

lemma str_to_uint16_Some_shape:
  assumes nul: "CHR 0x00 \<notin> set name" and some: "fst (str_to_uint16 name s) = Some v"
  shows "\<exists>ws sg ds. name = ws @ sg @ ds \<and> (\<forall>c\<in>set ws. isspace c) \<and>
           (sg = [] \<or> sg = ''+'' \<or> sg = ''-'') \<and> ds \<noteq> [] \<and> (\<forall>c\<in>set ds. isdigit c) \<and>
           decimal_value ds \<le> 65535 \<and> (sg = ''-'' \<longrightarrow> decimal_value ds = 0) \<and>
           v = word_of_nat (decimal_value ds)"
proof -
  define blanks where "blanks = takeWhile isspace name"
  define rest where "rest = dropWhile isspace name"
  define signed where "signed = (rest \<noteq> [] \<and> (hd rest = CHR ''-'' \<or> hd rest = CHR ''+''))"
  define negative where "negative = (rest \<noteq> [] \<and> hd rest = CHR ''-'')"
  define sg where "sg = (if signed then [hd rest] else [])"
  define body where "body = (if signed then tl rest else rest)"
  define digits where "digits = takeWhile isdigit body"
  define val where
    "val = (if negative then - int (decimal_value digits) else int (decimal_value digits))"
  define e where "e = length blanks + (if signed then 1 else 0) + length digits"
  have res: "fst (str_to_uint16 name s) =
      (if digits = [] \<or> val < 0 \<or> val > 65535 \<or> char_at name e \<noteq> CHR 0x00 then None
       else Some (word_of_int val))"
    unfolding str_to_uint16_result blanks_def rest_def signed_def negative_def body_def
      digits_def val_def e_def Let_def by simp
  from some res have dne: "digits \<noteq> []" and lo: "0 \<le> val" and hi: "val \<le> 65535"
    and nulat: "char_at name e = CHR 0x00" and v: "v = word_of_int val"
    by (auto split: if_splits)
  have name: "name = blanks @ rest"
    by (simp add: blanks_def rest_def)
  have rest: "rest = sg @ body"
    by (auto simp add: sg_def body_def signed_def)
  have body: "body = digits @ dropWhile isdigit body"
    by (simp add: digits_def)
  have len: "length name = length blanks + length sg + length digits
      + length (dropWhile isdigit body)"
    using name rest body by (metis length_append add.assoc)
  have e: "e = length blanks + length sg + length digits"
    by (simp add: e_def sg_def)
  have "\<not> e < length name"
  proof
    assume "e < length name"
    then have "char_at name e \<in> set name" by (simp add: char_at_def)
    with nulat nul show False by simp
  qed
  with len e have "dropWhile isdigit body = []" by simp
  with body have bd: "body = digits" by simp
  have shape: "name = blanks @ sg @ digits"
    using name rest bd by simp
  have ws: "\<forall>c\<in>set blanks. isspace c"
    unfolding blanks_def by (auto dest: set_takeWhileD)
  have dg: "\<forall>c\<in>set digits. isdigit c"
    unfolding digits_def by (auto dest: set_takeWhileD)
  have sgs: "sg = [] \<or> sg = ''+'' \<or> sg = ''-''"
    by (auto simp add: sg_def signed_def)
  have neg: "sg = ''-'' \<longrightarrow> negative"
    by (auto simp add: sg_def signed_def negative_def split: if_splits)
  have neg0: "sg = ''-'' \<longrightarrow> decimal_value digits = 0"
    using neg lo by (auto simp add: val_def)
  have le: "decimal_value digits \<le> 65535"
    using hi lo by (auto simp add: val_def split: if_splits)
  have "val = int (decimal_value digits)"
    using lo by (auto simp add: val_def split: if_splits)
  with v have v': "v = word_of_nat (decimal_value digits)" by simp
  from shape ws sgs dne dg le neg0 v' show ?thesis by blast
qed

lemma dlsym_by_name:
  "fst (str_to_uint16 name s) = None \<Longrightarrow>
   calls (snd (dlsym p h name s)) = calls s @ [Call_GetProcAddress h (Name name)]"
  by (simp add: dlsym_calls proc_name_of_def)

lemma parse_65536: "fst (str_to_uint16 ''65536'' s) = None"
  by (simp add: str_to_uint16_result isspace_def isdigit_def decimal_value_def digit_value_def
      char_at_def Let_def)

lemma parse_minus_1: "fst (str_to_uint16 ''-1'' s) = None"
  by (simp add: str_to_uint16_result isspace_def isdigit_def decimal_value_def digit_value_def
      char_at_def Let_def)

lemma parse_empty: "fst (str_to_uint16 '''' s) = None"
  by (simp add: str_to_uint16_result isspace_def isdigit_def decimal_value_def digit_value_def
      char_at_def Let_def)

lemma parse_12a: "fst (str_to_uint16 ''12a'' s) = None"
  by (simp add: str_to_uint16_result isspace_def isdigit_def decimal_value_def digit_value_def
      char_at_def Let_def)

text \<open>
  Claim C2. For a name that consists of decimal digits only, at least one, with a
  value of at most 65535, \<^verbatim>\<open>str_to_uint16\<close> returns true with that value, which
  fits in 16 bits unchanged, and \<^verbatim>\<open>dlsym\<close> makes one platform call:
  \<^verbatim>\<open>GetProcAddress\<close> with that value as an ordinal, not with the name.
\<close>

theorem digits_resolve_by_ordinal:
  assumes "name \<noteq> []" and "\<forall>c\<in>set name. isdigit c" and "decimal_value name \<le> 65535"
  shows "fst (str_to_uint16 name s) = Some (word_of_nat (decimal_value name)) \<and>
         unat (word_of_nat (decimal_value name) :: uint16_t) = decimal_value name \<and>
         calls (snd (dlsym p h name s)) =
           calls s @ [Call_GetProcAddress h (Ordinal (word_of_nat (decimal_value name)))]"
proof -
  have r: "fst (str_to_uint16 name s) = Some (word_of_nat (decimal_value name))"
    using assms by (rule str_to_uint16_digits)
  have "decimal_value name < 2 ^ 16" using assms(3) by simp
  then have u: "unat (word_of_nat (decimal_value name) :: uint16_t) = decimal_value name"
    by (simp add: unsigned_of_nat take_bit_nat_eq_self)
  show ?thesis
    by (simp add: r u dlsym_calls proc_name_of_def)
qed

theorem digits_resolve_by_ordinal_witness:
  "''65535'' \<noteq> [] \<and> decimal_value ''65535'' = 65535 \<and>
   fst (str_to_uint16 ''65535'' sample_state) = Some 65535 \<and>
   calls (snd (dlsym sample_platform 0x10000000 ''65535'' sample_state)) =
     [Call_GetProcAddress 0x10000000 (Ordinal 65535)]"
proof -
  have a: "''65535'' \<noteq> []" by simp
  have b: "\<forall>c\<in>set ''65535''. isdigit c" by (simp add: isdigit_def)
  have v: "decimal_value ''65535'' = 65535" by (simp add: decimal_value_def digit_value_def)
  then have c: "decimal_value ''65535'' \<le> 65535" by simp
  show ?thesis
    using digits_resolve_by_ordinal [OF a b c, of sample_state sample_platform "0x10000000"]
    by (simp add: v sample_state_def)
qed

text \<open>
  Claim C9. For a name that is a \<^verbatim>\<open>+\<close> followed by decimal digits, at least one,
  with a value of at most 65535 (such as \<^verbatim>\<open>+12\<close>), \<^verbatim>\<open>str_to_uint16\<close> returns
  true with that value and \<^verbatim>\<open>dlsym\<close> calls \<^verbatim>\<open>GetProcAddress\<close> with the value as
  an ordinal, not with the name.
\<close>

theorem plus_sign_resolves_by_ordinal:
  assumes "ds \<noteq> []" and "\<forall>c\<in>set ds. isdigit c" and "decimal_value ds \<le> 65535"
  shows "fst (str_to_uint16 (CHR ''+'' # ds) s) = Some (word_of_nat (decimal_value ds)) \<and>
         calls (snd (dlsym p h (CHR ''+'' # ds) s)) =
           calls s @ [Call_GetProcAddress h (Ordinal (word_of_nat (decimal_value ds)))]"
proof -
  have r: "fst (str_to_uint16 (CHR ''+'' # ds) s) = Some (word_of_nat (decimal_value ds))"
    using assms by (rule str_to_uint16_plus_digits)
  show ?thesis
    by (simp add: r dlsym_calls proc_name_of_def)
qed

theorem plus_sign_resolves_by_ordinal_witness:
  "decimal_value ''12'' = 12 \<and>
   fst (str_to_uint16 ''+12'' sample_state) = Some 12 \<and>
   calls (snd (dlsym sample_platform 0x10000000 ''+12'' sample_state)) =
     [Call_GetProcAddress 0x10000000 (Ordinal 12)]"
proof -
  have a: "''12'' \<noteq> []" by simp
  have b: "\<forall>c\<in>set ''12''. isdigit c" by (simp add: isdigit_def)
  have v: "decimal_value ''12'' = 12" by (simp add: decimal_value_def digit_value_def)
  then have c: "decimal_value ''12'' \<le> 65535" by simp
  show ?thesis
    using plus_sign_resolves_by_ordinal [OF a b c, of sample_state sample_platform "0x10000000"]
    by (simp add: v sample_state_def)
qed

text \<open>
  Claim C1 says that every name that is not a plain decimal numeral of a value up
  to 65535, the name \<^verbatim>\<open>" 12"\<close> with its leading blank among them, is looked up
  by name. It is not so: \<^verbatim>\<open>strtoimax\<close> skips the blank, the whole rest is
  converted, and \<^verbatim>\<open>dlsym\<close> calls \<^verbatim>\<open>GetProcAddress\<close> with the ordinal 12.
\<close>

theorem leading_blank_resolves_by_ordinal:
  "calls (snd (dlsym sample_platform 0x10000000 '' 12'' sample_state)) \<noteq>
     [Call_GetProcAddress 0x10000000 (Name '' 12'')] \<and>
   fst (str_to_uint16 '' 12'' sample_state) = Some 12 \<and>
   calls (snd (dlsym sample_platform 0x10000000 '' 12'' sample_state)) =
     [Call_GetProcAddress 0x10000000 (Ordinal 12)] \<and>
   fst (dlsym sample_platform 0x10000000 '' 12'' sample_state) = 0x10001000"
  by (simp add: sample_defs)

text \<open>
  Claim C1, amended. \<^verbatim>\<open>str_to_uint16\<close> accepts what \<^verbatim>\<open>strtoimax\<close> converts in
  full: white space, then an optional sign, then decimal digits whose value is at
  most 65535 (after a \<^verbatim>\<open>-\<close> the value can only be 0). Every name without an
  embedded NUL that is not of this shape, in particular \<^verbatim>\<open>65536\<close>, \<^verbatim>\<open>-1\<close>, the
  empty name and \<^verbatim>\<open>12a\<close>, is looked up by name: the one platform call of
  \<^verbatim>\<open>dlsym\<close> is \<^verbatim>\<open>GetProcAddress\<close> with the name as it was given.
\<close>

theorem rejected_parse_resolves_by_name:
  "(CHR 0x00 \<notin> set name \<and>
    \<not> (\<exists>ws sg ds. name = ws @ sg @ ds \<and> (\<forall>c\<in>set ws. isspace c) \<and>
          (sg = [] \<or> sg = ''+'' \<or> sg = ''-'') \<and> ds \<noteq> [] \<and> (\<forall>c\<in>set ds. isdigit c) \<and>
          decimal_value ds \<le> 65535 \<and> (sg = ''-'' \<longrightarrow> decimal_value ds = 0)) \<longrightarrow>
    calls (snd (dlsym p h name s)) = calls s @ [Call_GetProcAddress h (Name name)]) \<and>
   calls (snd (dlsym p h ''65536'' s)) = calls s @ [Call_GetProcAddress h (Name ''65536'')] \<and>
   calls (snd (dlsym p h ''-1'' s)) = calls s @ [Call_GetProcAddress h (Name ''-1'')] \<and>
   calls (snd (dlsym p h '''' s)) = calls s @ [Call_GetProcAddress h (Name '''')] \<and>
   calls (snd (dlsym p h ''12a'' s)) = calls s @ [Call_GetProcAddress h (Name ''12a'')]"
proof (intro conjI impI)
  assume a: "CHR 0x00 \<notin> set name \<and>
    \<not> (\<exists>ws sg ds. name = ws @ sg @ ds \<and> (\<forall>c\<in>set ws. isspace c) \<and>
          (sg = [] \<or> sg = ''+'' \<or> sg = ''-'') \<and> ds \<noteq> [] \<and> (\<forall>c\<in>set ds. isdigit c) \<and>
          decimal_value ds \<le> 65535 \<and> (sg = ''-'' \<longrightarrow> decimal_value ds = 0))"
  then have nul: "CHR 0x00 \<notin> set name" by (rule conjunct1)
  have "fst (str_to_uint16 name s) = None"
  proof (cases "fst (str_to_uint16 name s)")
    case None
    then show ?thesis .
  next
    case (Some v)
    from str_to_uint16_Some_shape [OF nul Some]
    obtain ws sg ds where "name = ws @ sg @ ds \<and> (\<forall>c\<in>set ws. isspace c) \<and>
           (sg = [] \<or> sg = ''+'' \<or> sg = ''-'') \<and> ds \<noteq> [] \<and> (\<forall>c\<in>set ds. isdigit c) \<and>
           decimal_value ds \<le> 65535 \<and> (sg = ''-'' \<longrightarrow> decimal_value ds = 0)"
      by blast
    then have "\<exists>ws sg ds. name = ws @ sg @ ds \<and> (\<forall>c\<in>set ws. isspace c) \<and>
           (sg = [] \<or> sg = ''+'' \<or> sg = ''-'') \<and> ds \<noteq> [] \<and> (\<forall>c\<in>set ds. isdigit c) \<and>
           decimal_value ds \<le> 65535 \<and> (sg = ''-'' \<longrightarrow> decimal_value ds = 0)"
      by (intro exI)
    with a show ?thesis by (elim conjE notE)
  qed
  then show "calls (snd (dlsym p h name s)) = calls s @ [Call_GetProcAddress h (Name name)]"
    by (rule dlsym_by_name)
next
  show "calls (snd (dlsym p h ''65536'' s)) = calls s @ [Call_GetProcAddress h (Name ''65536'')]"
    by (rule dlsym_by_name) (rule parse_65536)
next
  show "calls (snd (dlsym p h ''-1'' s)) = calls s @ [Call_GetProcAddress h (Name ''-1'')]"
    by (rule dlsym_by_name) (rule parse_minus_1)
next
  show "calls (snd (dlsym p h '''' s)) = calls s @ [Call_GetProcAddress h (Name '''')]"
    by (rule dlsym_by_name) (rule parse_empty)
next
  show "calls (snd (dlsym p h ''12a'' s)) = calls s @ [Call_GetProcAddress h (Name ''12a'')]"
    by (rule dlsym_by_name) (rule parse_12a)
qed

theorem rejected_parse_resolves_by_name_witness:
  "CHR 0x00 \<notin> set ''12a'' \<and> \<not> isdigit (last ''12a'') \<and>
   calls (snd (dlsym sample_platform 0x10000000 ''12a'' sample_state)) =
     [Call_GetProcAddress 0x10000000 (Name ''12a'')]"
proof -
  have nul: "CHR 0x00 \<notin> set ''12a''" by simp
  have nd: "\<not> isdigit (last ''12a'')" by (simp add: isdigit_def)
  have shape: "\<not> (\<exists>ws sg ds. ''12a'' = ws @ sg @ ds \<and> (\<forall>c\<in>set ws. isspace c) \<and>
          (sg = [] \<or> sg = ''+'' \<or> sg = ''-'') \<and> ds \<noteq> [] \<and> (\<forall>c\<in>set ds. isdigit c) \<and>
          decimal_value ds \<le> 65535 \<and> (sg = ''-'' \<longrightarrow> decimal_value ds = 0))"
  proof
    assume "\<exists>ws sg ds. ''12a'' = ws @ sg @ ds \<and> (\<forall>c\<in>set ws. isspace c) \<and>
          (sg = [] \<or> sg = ''+'' \<or> sg = ''-'') \<and> ds \<noteq> [] \<and> (\<forall>c\<in>set ds. isdigit c) \<and>
          decimal_value ds \<le> 65535 \<and> (sg = ''-'' \<longrightarrow> decimal_value ds = 0)"
    then obtain ws sg ds where eq: "''12a'' = ws @ sg @ ds" and ne: "ds \<noteq> []"
      and dg: "\<forall>c\<in>set ds. isdigit c" by blast
    from ne have "last (ws @ sg @ ds) = last ds" by simp
    with eq have "last ''12a'' = last ds" by simp
    moreover from ne have "last ds \<in> set ds" by simp
    ultimately have "isdigit (last ''12a'')" using dg by simp
    with nd show False by (rule notE)
  qed
  have s: "calls sample_state = []" by (simp add: sample_state_def)
  from nul shape have hyp: "CHR 0x00 \<notin> set ''12a'' \<and>
      \<not> (\<exists>ws sg ds. ''12a'' = ws @ sg @ ds \<and> (\<forall>c\<in>set ws. isspace c) \<and>
          (sg = [] \<or> sg = ''+'' \<or> sg = ''-'') \<and> ds \<noteq> [] \<and> (\<forall>c\<in>set ds. isdigit c) \<and>
          decimal_value ds \<le> 65535 \<and> (sg = ''-'' \<longrightarrow> decimal_value ds = 0))"
    by (rule conjI)
  note t = rejected_parse_resolves_by_name
    [of "''12a''" sample_platform "0x10000000" sample_state, THEN conjunct1, THEN mp, OF hyp]
  from t have "calls (snd (dlsym sample_platform 0x10000000 ''12a'' sample_state)) =
     [Call_GetProcAddress 0x10000000 (Name ''12a'')]"
    by (simp add: s)
  with nul nd show ?thesis by (intro conjI)
qed

end
